theory Spec2Isabelle
  imports Complex_Main "HOL-Library.Word"
begin

section \<open>JavaScript values used by the audit services\<close>

text \<open>
  A JavaScript string is a sequence of UTF-16 code units; \<open>s.length\<close> counts them.
  String literals of the source are written \<open>js ''...''\<close>.
\<close>

type_synonym js_string = "16 word list"

definition js :: "string \<Rightarrow> js_string" where
  "js s = map (\<lambda>c. word_of_nat (of_char c)) s"

text \<open>
  \<open>String.prototype.trim\<close> removes the code units of ECMAScript's WhiteSpace and
  LineTerminator productions from both ends.
\<close>

definition isWhiteSpace :: "16 word \<Rightarrow> bool" where
  "isWhiteSpace c =
     (c = 0x0009 \<or> c = 0x000A \<or> c = 0x000B \<or> c = 0x000C \<or> c = 0x000D \<or> c = 0x0020
      \<or> c = 0x00A0 \<or> c = 0x1680 \<or> (0x2000 \<le> c \<and> c \<le> 0x200A) \<or> c = 0x2028
      \<or> c = 0x2029 \<or> c = 0x202F \<or> c = 0x205F \<or> c = 0x3000 \<or> c = 0xFEFF)"

definition trim :: "js_string \<Rightarrow> js_string" where
  "trim s = rev (dropWhile isWhiteSpace (rev (dropWhile isWhiteSpace s)))"

text \<open>\<open>s.startsWith(p)\<close> and \<open>s.includes(p)\<close> (\<open>includes\<close> is a keyword here).\<close>

definition startsWith :: "'a list \<Rightarrow> 'a list \<Rightarrow> bool" where
  "startsWith s p = (take (length p) s = p)"

fun includesStr :: "'a list \<Rightarrow> 'a list \<Rightarrow> bool" where
  "includesStr [] p = (p = [])"
| "includesStr (c # s) p = (startsWith (c # s) p \<or> includesStr s p)"

text \<open>Template interpolation \<open>${n}\<close> of an integer: its decimal digits.\<close>

definition digit :: "nat \<Rightarrow> 16 word" where
  "digit d = word_of_nat (48 + d)"

function natToString :: "nat \<Rightarrow> js_string" where
  "natToString n = (if n < 10 then [digit n] else natToString (n div 10) @ [digit (n mod 10)])"
  by pat_completeness auto
termination
  by (relation "measure id") auto

declare natToString.simps [simp del]

definition toString :: "int \<Rightarrow> js_string" where
  "toString i = (if i < 0 then js ''-'' @ natToString (nat (- i)) else natToString (nat i))"

text \<open>
  Truthiness of a value that is a string or \<open>undefined\<close>: \<open>undefined\<close> and the empty
  string are falsy.
\<close>

definition truthy :: "js_string option \<Rightarrow> bool" where
  "truthy v = (case v of None \<Rightarrow> False | Some s \<Rightarrow> s \<noteq> [])"

text \<open>\<open>v || d\<close> for such a value and a string default.\<close>

definition orElse :: "js_string option \<Rightarrow> js_string \<Rightarrow> js_string" where
  "orElse v d = (case v of None \<Rightarrow> d | Some s \<Rightarrow> if s = [] then d else s)"

text \<open>
  \<open>Math.round\<close> rounds to the nearest integer, a half upwards. Its arguments here are
  quotients of integers below \<open>2^53\<close> by a power of two, which a double holds exactly,
  so the argument is modelled as a rational.
\<close>

definition Math_round :: "rat \<Rightarrow> int" where
  "Math_round x = \<lfloor>x + 1 / 2\<rfloor>"


section \<open>The parsed document\<close>

text \<open>
  The services query the document that \<open>cheerio.load(response.data)\<close> builds. Every
  selector in the source is a compound selector on one element (a tag name, attribute
  tests, \<open>:not\<close>) or a comma list of such; none uses a combinator. So a document is
  modelled by its elements in document order, each with its tag name, its attributes and
  the text \<open>$(el).text()\<close> returns. The parser has put tag and attribute names in lower
  case. Attribute values are compared as the selector writes them: exactly, code unit by
  code unit. Values spliced into a selector (an input's \<open>id\<close>, the host name) are
  matched as plain values.
\<close>

record element =
  tagName :: js_string
  attribs :: "(js_string \<times> js_string) list"
  textContent :: js_string

type_synonym document = "element list"

text \<open>\<open>$(el).attr(name)\<close>: the value, or \<open>undefined\<close>.\<close>

definition attr :: "element \<Rightarrow> string \<Rightarrow> js_string option" where
  "attr el name = map_of (attribs el) (js name)"

text \<open>\<open>$(selector).attr(name)\<close> on a selection reads the first selected element.\<close>

definition attrOfFirst :: "element list \<Rightarrow> string \<Rightarrow> js_string option" where
  "attrOfFirst sel name = (case sel of [] \<Rightarrow> None | el # _ \<Rightarrow> attr el name)"

text \<open>\<open>$(selector).text()\<close> concatenates the text of the selected elements.\<close>

definition textOf :: "element list \<Rightarrow> js_string" where
  "textOf sel = concat (map textContent sel)"

text \<open>Simple selectors: \<open>t\<close>, \<open>[n]\<close>, \<open>[n="v"]\<close>, \<open>[n^="v"]\<close>, \<open>[n*="v"]\<close>.
  The last two match nothing when \<open>v\<close> is empty.\<close>

definition tag :: "string \<Rightarrow> element \<Rightarrow> bool" where
  "tag t el = (tagName el = js t)"

definition hasAttr :: "string \<Rightarrow> element \<Rightarrow> bool" where
  "hasAttr n el = (attr el n \<noteq> None)"

definition attrIs :: "string \<Rightarrow> js_string \<Rightarrow> element \<Rightarrow> bool" where
  "attrIs n v el = (attr el n = Some v)"

definition attrStarts :: "string \<Rightarrow> js_string \<Rightarrow> element \<Rightarrow> bool" where
  "attrStarts n v el = (case attr el n of None \<Rightarrow> False | Some s \<Rightarrow> v \<noteq> [] \<and> startsWith s v)"

definition attrContains :: "string \<Rightarrow> js_string \<Rightarrow> element \<Rightarrow> bool" where
  "attrContains n v el = (case attr el n of None \<Rightarrow> False | Some s \<Rightarrow> v \<noteq> [] \<and> includesStr s v)"

text \<open>\<open>$(selector)\<close>: the elements matching, in document order.\<close>

definition select :: "(element \<Rightarrow> bool) \<Rightarrow> document \<Rightarrow> element list" where
  "select p doc = filter p doc"


section \<open>Results\<close>

datatype issue_type = Error | Warning | Info

datatype impact_level = High | Medium | Low

record issue =
  type :: issue_type
  message :: js_string
  impact :: impact_level

datatype grade = GradeA | GradeB | GradeC | GradeD | GradeF

text \<open>
  \<open>getGrade\<close> is defined five times in the source, once per service, with the same
  body.
\<close>

definition getGrade :: "int \<Rightarrow> grade" where
  "getGrade score =
     (if score \<ge> 90 then GradeA
      else if score \<ge> 80 then GradeB
      else if score \<ge> 70 then GradeC
      else if score \<ge> 60 then GradeD
      else GradeF)"

text \<open>
  The object an analyzer returns. The fifth field is \<open>details\<close> in three services; the
  performance service returns \<open>metrics\<close> and \<open>coreWebVitals\<close> in its place.
\<close>

record 'd analysis =
  score :: int
  grade :: grade
  issues :: "issue list"
  recommendations :: "js_string list"
  details :: 'd

text \<open>
  The running pair \<open>(issues, score)\<close> of an analyzer, and the step
  \<open>issues.push(i); score -= d\<close>.
\<close>

type_synonym tally = "issue list \<times> int"

definition push :: "issue \<Rightarrow> int \<Rightarrow> tally \<Rightarrow> tally" where
  "push i d t = (fst t @ [i], snd t - d)"

text \<open>
  What \<open>await axios.get(url, ...)\<close> gives an analyzer: the message of the error it
  throws, or the response, whose body is held as the parsed document.
\<close>

record response =
  data :: document
  headers :: "string \<Rightarrow> js_string option"

type_synonym 'r fetched = "js_string + 'r"


section \<open>SEO analyzer\<close>

record seoDetails =
  title :: js_string
  titleLength :: nat
  metaDescription :: js_string
  metaDescriptionLength :: nat
  h1Count :: nat
  imagesWithoutAlt :: nat
  hasCanonical :: bool
  hasOpenGraph :: bool

definition seoTitle :: "js_string \<Rightarrow> tally \<Rightarrow> tally" where
  "seoTitle ttl t =
     (if ttl = [] then
        push \<lparr>type = Error, message = js ''Missing title tag'', impact = High\<rparr> 15 t
      else if length ttl < 30 \<or> length ttl > 60 then
        push \<lparr>type = Warning,
              message = js ''Title length should be 30-60 characters (current: ''
                        @ toString (int (length ttl)) @ js '')'',
              impact = Medium\<rparr> 10 t
      else t)"

definition seoMetaDescription :: "js_string option \<Rightarrow> tally \<Rightarrow> tally" where
  "seoMetaDescription md t =
     (if \<not> truthy md then
        push \<lparr>type = Error, message = js ''Missing meta description'', impact = High\<rparr> 15 t
      else if length (the md) < 120 \<or> length (the md) > 160 then
        push \<lparr>type = Warning,
              message = js ''Meta description should be 120-160 characters (current: ''
                        @ toString (int (length (the md))) @ js '')'',
              impact = Medium\<rparr> 8 t
      else t)"

definition seoH1 :: "nat \<Rightarrow> tally \<Rightarrow> tally" where
  "seoH1 n t =
     (if n = 0 then
        push \<lparr>type = Error, message = js ''Missing H1 tag'', impact = High\<rparr> 12 t
      else if n > 1 then
        push \<lparr>type = Warning, message = js ''Multiple H1 tags found'', impact = Medium\<rparr> 8 t
      else t)"

definition seoImages :: "nat \<Rightarrow> tally \<Rightarrow> tally" where
  "seoImages n t =
     (if n > 0 then
        push \<lparr>type = Warning,
              message = toString (int n) @ js '' images missing alt text'',
              impact = Medium\<rparr> (min (int n * 2) 15) t
      else t)"

definition seoCanonical :: "js_string option \<Rightarrow> tally \<Rightarrow> tally" where
  "seoCanonical canonical t =
     (if \<not> truthy canonical then
        push \<lparr>type = Warning, message = js ''Missing canonical URL'', impact = Low\<rparr> 5 t
      else t)"

definition seoOpenGraph :: "js_string option \<Rightarrow> js_string option \<Rightarrow> tally \<Rightarrow> tally" where
  "seoOpenGraph ogTitle ogDescription t =
     (if \<not> truthy ogTitle \<or> \<not> truthy ogDescription then
        push \<lparr>type = Info, message = js ''Missing Open Graph tags for social sharing'',
              impact = Low\<rparr> 3 t
      else t)"

definition seoRecommendations :: "issue list \<Rightarrow> js_string list" where
  "seoRecommendations found =
     (if length found > 0 then
        [js ''Fix critical SEO issues first (missing title, meta description, H1)'',
         js ''Optimize title and meta description lengths'',
         js ''Add alt text to all images'']
      else [])"

definition seoAudit :: "document \<Rightarrow> seoDetails analysis" where
  "seoAudit doc =
     (let ttl = trim (textOf (select (tag ''title'') doc));
          md = attrOfFirst (select (\<lambda>e. tag ''meta'' e \<and> attrIs ''name'' (js ''description'') e) doc)
                 ''content'';
          h1Tags = select (tag ''h1'') doc;
          noAlt = length (select (\<lambda>e. tag ''img'' e \<and> \<not> hasAttr ''alt'' e) doc);
          canonical = attrOfFirst
                 (select (\<lambda>e. tag ''link'' e \<and> attrIs ''rel'' (js ''canonical'') e) doc) ''href'';
          ogTitle = attrOfFirst
                 (select (\<lambda>e. tag ''meta'' e \<and> attrIs ''property'' (js ''og:title'') e) doc)
                 ''content'';
          ogDescription = attrOfFirst
                 (select (\<lambda>e. tag ''meta'' e \<and> attrIs ''property'' (js ''og:description'') e) doc)
                 ''content'';
          t = seoOpenGraph ogTitle ogDescription
                (seoCanonical canonical
                  (seoImages noAlt
                    (seoH1 (length h1Tags)
                      (seoMetaDescription md
                        (seoTitle ttl ([], 100))))))
      in \<lparr>score = max (snd t) 0,
          grade = getGrade (snd t),
          issues = fst t,
          recommendations = seoRecommendations (fst t),
          details = \<lparr>title = (if ttl = [] then js ''Not found'' else ttl),
                     titleLength = (if ttl = [] then 0 else length ttl),
                     metaDescription = orElse md (js ''Not found''),
                     metaDescriptionLength = (if truthy md then length (the md) else 0),
                     h1Count = length h1Tags,
                     imagesWithoutAlt = noAlt,
                     hasCanonical = truthy canonical,
                     hasOpenGraph = (truthy ogTitle \<and> truthy ogDescription)\<rparr>\<rparr>)"

text \<open>
  \<open>analyzeSEO\<close>: a failed fetch is rethrown as
  \<open>new Error(`SEO analysis failed: ${error.message}`)\<close>.
\<close>

definition analyzeSEO :: "response fetched \<Rightarrow> js_string + seoDetails analysis" where
  "analyzeSEO fetched =
     (case fetched of
        Inl msg \<Rightarrow> Inl (js ''SEO analysis failed: '' @ msg)
      | Inr response \<Rightarrow> Inr (seoAudit (data response)))"


section \<open>Performance analyzer\<close>

text \<open>
  The performance service times the fetch itself: \<open>elapsed\<close> is
  \<open>Date.now() - startTime\<close> and \<open>byteLength\<close> is
  \<open>Buffer.byteLength(response.data, 'utf8')\<close>. \<open>String.prototype.toLowerCase\<close>
  follows the Unicode case mapping of the runtime and is a parameter of the two services
  that call it.
\<close>

record timedResponse = response +
  elapsed :: int
  byteLength :: nat

record performanceMetrics =
  loadTime :: int
  pageSize :: int
  hasCompression :: bool
  hasCaching :: bool
  hasCDN :: bool
  responseTime :: int

record webVitals =
  lcp :: js_string
  fid :: js_string
  cls :: js_string

record performanceDetails =
  metrics :: performanceMetrics
  coreWebVitals :: webVitals

definition perfLoadTime :: "int \<Rightarrow> tally \<Rightarrow> tally" where
  "perfLoadTime ms t =
     (if ms > 3000 then
        push \<lparr>type = Error, message = js ''Slow page load time: '' @ toString ms @ js ''ms'',
              impact = High\<rparr> 20 t
      else if ms > 1500 then
        push \<lparr>type = Warning,
              message = js ''Moderate page load time: '' @ toString ms @ js ''ms'',
              impact = Medium\<rparr> 10 t
      else t)"

definition perfSize :: "int \<Rightarrow> tally \<Rightarrow> tally" where
  "perfSize sizeInKB t =
     (if sizeInKB > 1000 then
        push \<lparr>type = Warning,
              message = js ''Large page size: '' @ toString sizeInKB @ js ''KB'',
              impact = Medium\<rparr> 15 t
      else t)"

definition perfCompression :: "(string \<Rightarrow> js_string option) \<Rightarrow> tally \<Rightarrow> tally" where
  "perfCompression hs t =
     (if \<not> truthy (hs ''content-encoding'') then
        push \<lparr>type = Warning, message = js ''No compression detected'', impact = Medium\<rparr> 10 t
      else t)"

definition perfCaching :: "(string \<Rightarrow> js_string option) \<Rightarrow> tally \<Rightarrow> tally" where
  "perfCaching hs t =
     (if \<not> truthy (hs ''cache-control'') \<and> \<not> truthy (hs ''expires'') then
        push \<lparr>type = Warning, message = js ''No caching headers found'', impact = Medium\<rparr> 8 t
      else t)"

definition cdnHeaders :: "js_string list" where
  "cdnHeaders = [js ''cloudflare'', js ''cloudfront'', js ''fastly'', js ''maxcdn'']"

definition perfHasCDN :: "(js_string \<Rightarrow> js_string) \<Rightarrow> (string \<Rightarrow> js_string option) \<Rightarrow> bool" where
  "perfHasCDN toLowerCase hs =
     (let server = orElse (hs ''server'') []
      in list_ex (\<lambda>cdn. includesStr (toLowerCase server) cdn) cdnHeaders)"

definition perfCDN :: "bool \<Rightarrow> tally \<Rightarrow> tally" where
  "perfCDN cdn t =
     (if \<not> cdn then
        push \<lparr>type = Info, message = js ''Consider using a CDN for better performance'',
              impact = Low\<rparr> 5 t
      else t)"

definition perfRecommendations :: "int \<Rightarrow> int \<Rightarrow> js_string list" where
  "perfRecommendations ms sizeInKB =
     (if ms > 1500 then
        [js ''Optimize images and reduce file sizes'',
         js ''Enable compression (gzip/brotli)'',
         js ''Minimize HTTP requests'']
      else [])
     @ (if sizeInKB > 500 then [js ''Reduce page size by optimizing assets''] else [])"

definition performanceAudit ::
  "(js_string \<Rightarrow> js_string) \<Rightarrow> timedResponse \<Rightarrow> performanceDetails analysis" where
  "performanceAudit toLowerCase r =
     (let ms = elapsed r;
          sizeInKB = Math_round (of_nat (byteLength r) / 1024);
          hs = headers r;
          cdn = perfHasCDN toLowerCase hs;
          t = perfCDN cdn
                (perfCaching hs
                  (perfCompression hs
                    (perfSize sizeInKB
                      (perfLoadTime ms ([], 100)))))
      in \<lparr>score = max (snd t) 0,
          grade = getGrade (snd t),
          issues = fst t,
          recommendations = perfRecommendations ms sizeInKB,
          details =
            \<lparr>metrics = \<lparr>loadTime = ms,
                         pageSize = sizeInKB,
                         hasCompression = truthy (hs ''content-encoding''),
                         hasCaching = (truthy (hs ''cache-control'') \<or> truthy (hs ''expires'')),
                         hasCDN = cdn,
                         responseTime = ms\<rparr>,
             coreWebVitals = \<lparr>lcp = (if ms < 2500 then js ''good''
                                     else if ms < 4000 then js ''needs-improvement''
                                     else js ''poor''),
                               fid = js ''good'',
                               cls = js ''good''\<rparr>\<rparr>\<rparr>)"

definition analyzePerformance ::
  "(js_string \<Rightarrow> js_string) \<Rightarrow> timedResponse fetched
   \<Rightarrow> js_string + performanceDetails analysis" where
  "analyzePerformance toLowerCase fetched =
     (case fetched of
        Inl msg \<Rightarrow> Inl (js ''Performance analysis failed: '' @ msg)
      | Inr r \<Rightarrow> Inr (performanceAudit toLowerCase r))"


section \<open>Accessibility analyzer\<close>

record accessibilityDetails =
  totalImages :: nat
  imagesWithoutAlt :: nat
  headingCount :: nat
  inputsWithoutLabels :: nat
  hasLanguageAttribute :: bool
  landmarkCount :: nat
  skipLinksCount :: nat

definition a11yImages :: "nat \<Rightarrow> nat \<Rightarrow> tally \<Rightarrow> tally" where
  "a11yImages n totalImgs t =
     (if n > 0 then
        push \<lparr>type = Error,
              message = toString (int n) @ js '' of '' @ toString (int totalImgs)
                        @ js '' images missing alt text'',
              impact = High\<rparr> (min (int n * 3) 20) t
      else t)"

text \<open>
  The missing-H1 check also starts the counter \<open>headingIssues\<close>: the state here is the
  tally and the counter.
\<close>

definition a11yMissingH1 :: "nat \<Rightarrow> tally \<Rightarrow> tally \<times> nat" where
  "a11yMissingH1 h1s t =
     (if h1s = 0 then
        (push \<lparr>type = Error, message = js ''Missing H1 heading'', impact = High\<rparr> 15 t, 1)
      else (t, 0))"

text \<open>
  \<open>parseInt(s.charAt(i))\<close>: the value of the decimal digit at index \<open>i\<close>, and \<open>NaN\<close>
  (here \<open>None\<close>) when there is no code unit there or it is not a digit. A comparison
  with \<open>NaN\<close> is false, and \<open>NaN !== 0\<close> is true.
\<close>

definition parseIntCharAt :: "js_string \<Rightarrow> nat \<Rightarrow> nat option" where
  "parseIntCharAt s i =
     (if i < length s \<and> 0x30 \<le> s ! i \<and> s ! i \<le> 0x39 then Some (unat (s ! i) - 48) else None)"

definition numGreater :: "nat option \<Rightarrow> nat option \<Rightarrow> bool" where
  "numGreater a b = (case (a, b) of (Some x, Some y) \<Rightarrow> x > y | _ \<Rightarrow> False)"

text \<open>
  The loop \<open>headings.each\<close>, on the state \<open>(previousLevel, headingIssues)\<close>.
\<close>

fun headingWalk :: "element list \<Rightarrow> nat option \<times> nat \<Rightarrow> nat option \<times> nat" where
  "headingWalk [] st = st"
| "headingWalk (el # els) (previousLevel, headingIssues) =
     (let level = parseIntCharAt (tagName el) 1
      in headingWalk els
           (level,
            if numGreater level (map_option Suc previousLevel) \<and> previousLevel \<noteq> Some 0
            then headingIssues + 1 else headingIssues))"

definition isHeading :: "element \<Rightarrow> bool" where
  "isHeading e = (tag ''h1'' e \<or> tag ''h2'' e \<or> tag ''h3'' e \<or> tag ''h4'' e \<or> tag ''h5'' e
                  \<or> tag ''h6'' e)"

definition a11yHierarchy :: "nat \<Rightarrow> tally \<Rightarrow> tally" where
  "a11yHierarchy headingIssues t =
     (if headingIssues > 1 then
        push \<lparr>type = Warning, message = js ''Improper heading hierarchy'', impact = Medium\<rparr> 10 t
      else t)"

text \<open>
  The heading block: the missing-H1 check, the walk and the hierarchy check. It returns
  the tally and the counter, which the recommendations read again.
\<close>

definition a11yHeadings :: "document \<Rightarrow> tally \<Rightarrow> tally \<times> nat" where
  "a11yHeadings doc t =
     (let headings = select isHeading doc;
          (t1, h0) = a11yMissingH1 (length (select (tag ''h1'') doc)) t;
          headingIssues = snd (headingWalk headings (Some 0, h0))
      in (a11yHierarchy headingIssues t1, headingIssues))"

definition inputsWithoutLabelsOf :: "document \<Rightarrow> element list" where
  "inputsWithoutLabelsOf doc =
     filter (\<lambda>el. let id = attr el ''id''
                  in \<not> truthy id
                     \<or> length (select (\<lambda>l. tag ''label'' l \<and> attrIs ''for'' (the id) l) doc) = 0)
       (select (\<lambda>e. tag ''input'' e \<and> \<not> attrIs ''type'' (js ''hidden'') e
                     \<and> \<not> hasAttr ''aria-label'' e \<and> \<not> hasAttr ''aria-labelledby'' e) doc)"

definition a11yLabels :: "nat \<Rightarrow> tally \<Rightarrow> tally" where
  "a11yLabels n t =
     (if n > 0 then
        push \<lparr>type = Error, message = toString (int n) @ js '' form inputs missing labels'',
              impact = High\<rparr> (int n * 5) t
      else t)"

definition a11yColors :: "nat \<Rightarrow> tally \<Rightarrow> tally" where
  "a11yColors n t =
     (if n > 0 then
        push \<lparr>type = Warning,
              message = js ''Elements with inline colors detected - check contrast ratios'',
              impact = Medium\<rparr> 5 t
      else t)"

definition a11yKeyboard :: "nat \<Rightarrow> nat \<Rightarrow> tally \<Rightarrow> tally" where
  "a11yKeyboard focusableElements elementsWithTabindex t =
     (if focusableElements > 0 \<and> elementsWithTabindex = 0 then
        push \<lparr>type = Info, message = js ''Consider adding proper tab navigation order'',
              impact = Low\<rparr> 3 t
      else t)"

definition a11yLandmarks :: "nat \<Rightarrow> tally \<Rightarrow> tally" where
  "a11yLandmarks landmarks t =
     (if landmarks = 0 then
        push \<lparr>type = Warning,
              message = js ''No ARIA landmarks or semantic HTML5 elements found'',
              impact = Medium\<rparr> 8 t
      else t)"

definition a11yLang :: "js_string option \<Rightarrow> tally \<Rightarrow> tally" where
  "a11yLang htmlLang t =
     (if \<not> truthy htmlLang then
        push \<lparr>type = Warning, message = js ''Missing language attribute on HTML element'',
              impact = Medium\<rparr> 7 t
      else t)"

definition a11ySkipLinks :: "nat \<Rightarrow> tally \<Rightarrow> tally" where
  "a11ySkipLinks skipLinks t =
     (if skipLinks = 0 then
        push \<lparr>type = Info, message = js ''No skip navigation links found'', impact = Low\<rparr> 3 t
      else t)"

definition isFocusable :: "element \<Rightarrow> bool" where
  "isFocusable e = (tag ''a'' e \<or> tag ''button'' e \<or> tag ''input'' e \<or> tag ''select'' e
                    \<or> tag ''textarea'' e \<or> hasAttr ''tabindex'' e)"

definition isLandmark :: "element \<Rightarrow> bool" where
  "isLandmark e =
     (attrIs ''role'' (js ''main'') e \<or> attrIs ''role'' (js ''navigation'') e
      \<or> attrIs ''role'' (js ''banner'') e \<or> attrIs ''role'' (js ''contentinfo'') e
      \<or> tag ''main'' e \<or> tag ''nav'' e \<or> tag ''header'' e \<or> tag ''footer'' e)"

definition skipLinksOf :: "(js_string \<Rightarrow> js_string) \<Rightarrow> document \<Rightarrow> element list" where
  "skipLinksOf toLowerCase doc =
     filter (\<lambda>el. let txt = toLowerCase (textContent el)
                  in includesStr txt (js ''skip'') \<or> includesStr txt (js ''jump''))
       (select (\<lambda>e. tag ''a'' e \<and> attrStarts ''href'' (js ''#'') e) doc)"

definition a11yRecommendations :: "nat \<Rightarrow> nat \<Rightarrow> nat \<Rightarrow> js_string list" where
  "a11yRecommendations noAlt unlabeled headingIssues =
     (if noAlt > 0 then [js ''Add descriptive alt text to all images''] else [])
     @ (if unlabeled > 0 then [js ''Associate all form inputs with proper labels''] else [])
     @ (if headingIssues > 0 then [js ''Fix heading hierarchy (H1 '' @ [0x2192] @ js '' H2 '' @ [0x2192]
                                   @ js '' H3, etc.)''] else [])
     @ [js ''Test with screen readers and keyboard navigation'',
        js ''Ensure sufficient color contrast (4.5:1 for normal text)'']"


definition accessibilityAudit ::
  "(js_string \<Rightarrow> js_string) \<Rightarrow> document \<Rightarrow> accessibilityDetails analysis" where
  "accessibilityAudit toLowerCase doc =
     (let noAlt = length (select (\<lambda>e. tag ''img'' e \<and> \<not> hasAttr ''alt'' e) doc);
          totalImgs = length (select (tag ''img'') doc);
          (t2, headingIssues) = a11yHeadings doc (a11yImages noAlt totalImgs ([], 100));
          unlabeled = length (inputsWithoutLabelsOf doc);
          elementsWithInlineColors = length (select (attrContains ''style'' (js ''color'')) doc);
          focusableElements = length (select isFocusable doc);
          elementsWithTabindex = length (select (hasAttr ''tabindex'') doc);
          landmarks = length (select isLandmark doc);
          htmlLang = attrOfFirst (select (tag ''html'') doc) ''lang'';
          skipLinks = length (skipLinksOf toLowerCase doc);
          t = a11ySkipLinks skipLinks
                (a11yLang htmlLang
                  (a11yLandmarks landmarks
                    (a11yKeyboard focusableElements elementsWithTabindex
                      (a11yColors elementsWithInlineColors
                        (a11yLabels unlabeled t2)))))
      in \<lparr>score = max (snd t) 0,
          grade = getGrade (snd t),
          issues = fst t,
          recommendations = a11yRecommendations noAlt unlabeled headingIssues,
          details = \<lparr>totalImages = totalImgs,
                     imagesWithoutAlt = noAlt,
                     headingCount = length (select isHeading doc),
                     inputsWithoutLabels = unlabeled,
                     hasLanguageAttribute = truthy htmlLang,
                     landmarkCount = landmarks,
                     skipLinksCount = skipLinks\<rparr>\<rparr>)"

definition analyzeAccessibility ::
  "(js_string \<Rightarrow> js_string) \<Rightarrow> response fetched
   \<Rightarrow> js_string + accessibilityDetails analysis" where
  "analyzeAccessibility toLowerCase fetched =
     (case fetched of
        Inl msg \<Rightarrow> Inl (js ''Accessibility analysis failed: '' @ msg)
      | Inr response \<Rightarrow> Inr (accessibilityAudit toLowerCase (data response)))"


section \<open>Best practices analyzer\<close>

record securityHeaderFlags =
  contentTypeOptions :: bool
  frameOptions :: bool
  xssProtection :: bool
  hsts :: bool

record bestPracticesDetails =
  isHTTPS :: bool
  hasViewport :: bool
  hasFavicon :: bool
  securityHeaders :: securityHeaderFlags
  externalLinksCount :: nat
  unsafeExternalLinks :: nat
  deprecatedElements :: nat
  inlineStyles :: nat
  inlineScripts :: nat

definition bpHTTPS :: "bool \<Rightarrow> tally \<Rightarrow> tally" where
  "bpHTTPS https t =
     (if \<not> https then
        push \<lparr>type = Error, message = js ''Website not using HTTPS'', impact = High\<rparr> 20 t
      else t)"

text \<open>The object \<open>securityHeaders\<close>, in the order of its keys.\<close>

definition securityHeaderTable :: "(string \<times> js_string) list" where
  "securityHeaderTable =
     [(''x-content-type-options'', js ''Missing X-Content-Type-Options header''),
      (''x-frame-options'', js ''Missing X-Frame-Options header''),
      (''x-xss-protection'', js ''Missing X-XSS-Protection header''),
      (''strict-transport-security'', js ''Missing Strict-Transport-Security header'')]"

definition bpHeader :: "(string \<Rightarrow> js_string option) \<Rightarrow> string \<times> js_string \<Rightarrow> tally \<Rightarrow> tally" where
  "bpHeader hs entry t =
     (if \<not> truthy (hs (fst entry)) then
        push \<lparr>type = Warning, message = snd entry, impact = Medium\<rparr> 5 t
      else t)"

definition bpSecurityHeaders :: "(string \<Rightarrow> js_string option) \<Rightarrow> tally \<Rightarrow> tally" where
  "bpSecurityHeaders hs t = fold (bpHeader hs) securityHeaderTable t"

definition bpViewport :: "js_string option \<Rightarrow> tally \<Rightarrow> tally" where
  "bpViewport viewportMeta t =
     (if \<not> truthy viewportMeta then
        push \<lparr>type = Error, message = js ''Missing viewport meta tag'', impact = High\<rparr> 15 t
      else if \<not> includesStr (the viewportMeta) (js ''width=device-width'') then
        push \<lparr>type = Warning,
              message = js ''Viewport meta tag should include width=device-width'',
              impact = Medium\<rparr> 8 t
      else t)"

definition bpFavicon :: "bool \<Rightarrow> tally \<Rightarrow> tally" where
  "bpFavicon favicon t =
     (if \<not> favicon then
        push \<lparr>type = Info, message = js ''No favicon found'', impact = Low\<rparr> 3 t
      else t)"


text \<open>
  External links: \<open>a[href^="http"]:not([href*="HOST"])\<close>, where \<open>HOST\<close> is
  \<open>new URL(url).hostname\<close>, a parameter here. A link is unsafe when
  \<open>!rel.includes('noopener') || !rel.includes('noreferrer')\<close>.
\<close>

definition externalLinksOf :: "js_string \<Rightarrow> document \<Rightarrow> element list" where
  "externalLinksOf hostname doc =
     select (\<lambda>e. tag ''a'' e \<and> attrStarts ''href'' (js ''http'') e
                  \<and> \<not> attrContains ''href'' hostname e) doc"

definition isUnsafeLink :: "element \<Rightarrow> bool" where
  "isUnsafeLink el =
     (let rel = orElse (attr el ''rel'') []
      in \<not> includesStr rel (js ''noopener'') \<or> \<not> includesStr rel (js ''noreferrer''))"

definition unsafeExternalLinksOf :: "js_string \<Rightarrow> document \<Rightarrow> element list" where
  "unsafeExternalLinksOf hostname doc = filter isUnsafeLink (externalLinksOf hostname doc)"

definition bpExternalLinks :: "nat \<Rightarrow> tally \<Rightarrow> tally" where
  "bpExternalLinks n t =
     (if n > 0 then
        push \<lparr>type = Warning,
              message = toString (int n) @ js '' external links missing rel='' @ [0x22]
                        @ js ''noopener noreferrer'' @ [0x22],
              impact = Medium\<rparr> (min (int n * 2) 10) t
      else t)"

definition isHttpResource :: "element \<Rightarrow> bool" where
  "isHttpResource e =
     ((tag ''img'' e \<and> attrStarts ''src'' (js ''http:'') e)
      \<or> (tag ''script'' e \<and> attrStarts ''src'' (js ''http:'') e)
      \<or> (tag ''link'' e \<and> attrStarts ''href'' (js ''http:'') e))"

definition bpMixedContent :: "bool \<Rightarrow> document \<Rightarrow> tally \<Rightarrow> tally" where
  "bpMixedContent https doc t =
     (if https then
        (let httpResources = length (select isHttpResource doc)
         in if httpResources > 0 then
              push \<lparr>type = Error,
                    message = toString (int httpResources)
                              @ js '' HTTP resources on HTTPS page (mixed content)'',
                    impact = High\<rparr> 15 t
            else t)
      else t)"

definition isDeprecated :: "element \<Rightarrow> bool" where
  "isDeprecated e = (tag ''center'' e \<or> tag ''font'' e \<or> tag ''marquee'' e \<or> tag ''blink'' e)"

definition bpDeprecated :: "nat \<Rightarrow> tally \<Rightarrow> tally" where
  "bpDeprecated n t =
     (if n > 0 then
        push \<lparr>type = Warning,
              message = toString (int n) @ js '' deprecated HTML elements found'',
              impact = Low\<rparr> (int n * 2) t
      else t)"

definition bpInlineStyles :: "nat \<Rightarrow> tally \<Rightarrow> tally" where
  "bpInlineStyles n t =
     (if n > 5 then
        push \<lparr>type = Info,
              message = js ''Many inline styles found ('' @ toString (int n)
                        @ js '') - consider using external CSS'',
              impact = Low\<rparr> 3 t
      else t)"

definition bpInlineScripts :: "nat \<Rightarrow> tally \<Rightarrow> tally" where
  "bpInlineScripts n t =
     (if n > 2 then
        push \<lparr>type = Info,
              message = js ''Multiple inline scripts found ('' @ toString (int n)
                        @ js '') - consider using external JS'',
              impact = Low\<rparr> 3 t
      else t)"

definition bpRecommendations ::
  "bool \<Rightarrow> (string \<Rightarrow> js_string option) \<Rightarrow> js_string option \<Rightarrow> nat \<Rightarrow> js_string list" where
  "bpRecommendations https hs viewportMeta unsafeLinks =
     (if \<not> https then [js ''Implement HTTPS with valid SSL certificate''] else [])
     @ (if list_ex (\<lambda>h. \<not> truthy (hs (fst h))) securityHeaderTable
        then [js ''Add security headers for better protection''] else [])
     @ (if \<not> truthy viewportMeta
        then [js ''Add viewport meta tag for mobile responsiveness''] else [])
     @ (if unsafeLinks > 0
        then [js ''Add rel='' @ [0x22] @ js ''noopener noreferrer'' @ [0x22]
              @ js '' to external links''] else [])"

definition bestPracticesAudit ::
  "js_string \<Rightarrow> js_string \<Rightarrow> response \<Rightarrow> bestPracticesDetails analysis" where
  "bestPracticesAudit url hostname response =
     (let doc = data response;
          hs = headers response;
          https = startsWith url (js ''https://'');
          viewportMeta = attrOfFirst
             (select (\<lambda>e. tag ''meta'' e \<and> attrIs ''name'' (js ''viewport'') e) doc) ''content'';
          favicon =
            (length (select (\<lambda>e. tag ''link'' e \<and> attrContains ''rel'' (js ''icon'') e) doc) > 0
             \<or> length (select (\<lambda>e. tag ''link'' e \<and> attrIs ''rel'' (js ''shortcut icon'') e) doc)
                > 0);
          externalLinks = externalLinksOf hostname doc;
          unsafeLinks = length (unsafeExternalLinksOf hostname doc);
          deprecated = length (select isDeprecated doc);
          styles = length (select (hasAttr ''style'') doc);
          scripts = length (select (\<lambda>e. tag ''script'' e \<and> \<not> hasAttr ''src'' e) doc);
          t = bpInlineScripts scripts
                (bpInlineStyles styles
                  (bpDeprecated deprecated
                    (bpMixedContent https doc
                      (bpExternalLinks unsafeLinks
                        (bpFavicon favicon
                          (bpViewport viewportMeta
                            (bpSecurityHeaders hs
                              (bpHTTPS https ([], 100)))))))))
      in \<lparr>score = max (snd t) 0,
          grade = getGrade (snd t),
          issues = fst t,
          recommendations = bpRecommendations https hs viewportMeta unsafeLinks,
          details =
            \<lparr>isHTTPS = https,
             hasViewport = truthy viewportMeta,
             hasFavicon = favicon,
             securityHeaders =
               \<lparr>contentTypeOptions = truthy (hs ''x-content-type-options''),
                frameOptions = truthy (hs ''x-frame-options''),
                xssProtection = truthy (hs ''x-xss-protection''),
                hsts = truthy (hs ''strict-transport-security'')\<rparr>,
             externalLinksCount = length externalLinks,
             unsafeExternalLinks = unsafeLinks,
             deprecatedElements = deprecated,
             inlineStyles = styles,
             inlineScripts = scripts\<rparr>\<rparr>)"

definition analyzeBestPractices ::
  "js_string \<Rightarrow> js_string \<Rightarrow> response fetched
   \<Rightarrow> js_string + bestPracticesDetails analysis" where
  "analyzeBestPractices url hostname fetched =
     (case fetched of
        Inl msg \<Rightarrow> Inl (js ''Best practices analysis failed: '' @ msg)
      | Inr response \<Rightarrow> Inr (bestPracticesAudit url hostname response))"


section \<open>Audit aggregator\<close>

text \<open>
  A dimension of the report is the object its analyzer returned, or the object
  \<open>{ error: err.message, score: 0 }\<close> that \<open>.catch\<close> puts in its place, which has
  the two fields \<open>error\<close> and \<open>score\<close> and no other.
\<close>

datatype 'd dimension = Analysis "'d analysis" | Placeholder js_string int

definition catchPlaceholder :: "js_string + 'd analysis \<Rightarrow> 'd dimension" where
  "catchPlaceholder outcome =
     (case outcome of Inl msg \<Rightarrow> Placeholder msg 0 | Inr a \<Rightarrow> Analysis a)"

text \<open>\<open>x.score\<close>, \<open>x.score || 0\<close> and \<open>x.issues?.length || 0\<close>.\<close>

definition scoreField :: "'d dimension \<Rightarrow> int" where
  "scoreField x = (case x of Analysis a \<Rightarrow> analysis.score a | Placeholder _ s \<Rightarrow> s)"

definition scoreOrZero :: "'d dimension \<Rightarrow> int" where
  "scoreOrZero x = (let s = scoreField x in if s = 0 then 0 else s)"

definition issuesLengthOrZero :: "'d dimension \<Rightarrow> nat" where
  "issuesLengthOrZero x =
     (case x of
        Analysis a \<Rightarrow> (let n = length (analysis.issues a) in if n = 0 then 0 else n)
      | Placeholder _ _ \<Rightarrow> 0)"

record overallRecord =
  score :: int
  grade :: grade
  timestamp :: js_string

record summaryRecord =
  totalIssues :: nat
  criticalIssues :: nat
  recommendations :: "js_string list"

record auditResults =
  overall :: overallRecord
  seo :: "seoDetails dimension"
  performance :: "performanceDetails dimension"
  accessibility :: "accessibilityDetails dimension"
  bestPractices :: "bestPracticesDetails dimension"
  summary :: summaryRecord

text \<open>
  Each analyzer issues its own request, so an audit depends on four fetches. The time
  stamp \<open>new Date().toISOString()\<close> is a parameter.
\<close>

record fetches =
  seoFetch :: "response fetched"
  performanceFetch :: "timedResponse fetched"
  accessibilityFetch :: "response fetched"
  bestPracticesFetch :: "response fetched"

text \<open>
  \<open>runFullAudit\<close>. Every analyzer's rejection is handled by its own \<open>.catch\<close>, and
  the rest of the body reads fields and adds numbers, so nothing reaches the outer
  \<open>catch\<close> that would rethrow \<open>Audit failed\<close>: the function returns on every path.
\<close>

definition runFullAudit ::
  "(js_string \<Rightarrow> js_string) \<Rightarrow> js_string \<Rightarrow> js_string \<Rightarrow> js_string \<Rightarrow> fetches
   \<Rightarrow> js_string + auditResults" where
  "runFullAudit toLowerCase url hostname now fs =
     (let seoResults = catchPlaceholder (analyzeSEO (seoFetch fs));
          performanceResults =
            catchPlaceholder (analyzePerformance toLowerCase (performanceFetch fs));
          accessibilityResults =
            catchPlaceholder (analyzeAccessibility toLowerCase (accessibilityFetch fs));
          bestPracticesResults =
            catchPlaceholder (analyzeBestPractices url hostname (bestPracticesFetch fs));
          scores = [scoreOrZero seoResults, scoreOrZero performanceResults,
                    scoreOrZero accessibilityResults, scoreOrZero bestPracticesResults];
          overallScore = Math_round (of_int (foldl (\<lambda>a b. a + b) 0 scores)
                                     / of_nat (length scores))
      in Inr \<lparr>overall = \<lparr>score = overallScore, grade = getGrade overallScore,
                          timestamp = now\<rparr>,
              seo = seoResults,
              performance = performanceResults,
              accessibility = accessibilityResults,
              bestPractices = bestPracticesResults,
              summary = \<lparr>totalIssues = issuesLengthOrZero seoResults
                                       + issuesLengthOrZero performanceResults
                                       + issuesLengthOrZero accessibilityResults
                                       + issuesLengthOrZero bestPracticesResults,
                          criticalIssues = 0,
                          recommendations = []\<rparr>\<rparr>)"


text \<open>
  The specification's words for the overall score: the mean of the four scores, rounded
  (\<^term>\<open>round\<close> takes a half upwards, as \<open>Math.round\<close> does).
\<close>

definition specMean :: "int list \<Rightarrow> rat" where
  "specMean xs = of_int (sum_list xs) / of_nat (length xs)"








section \<open>Example inputs\<close>

text \<open>
  An instance of \<open>toLowerCase\<close> that is right on strings of ASCII code units, and a
  short way to write an element.
\<close>

definition asciiToLowerCase :: "js_string \<Rightarrow> js_string" where
  "asciiToLowerCase s = map (\<lambda>c. if 0x41 \<le> c \<and> c \<le> 0x5A then c + 0x20 else c) s"

definition elem :: "string \<Rightarrow> (string \<times> string) list \<Rightarrow> string \<Rightarrow> element" where
  "elem t as txt =
     \<lparr>tagName = js t, attribs = map (\<lambda>(n, v). (js n, js v)) as, textContent = js txt\<rparr>"

definition noHeaders :: "string \<Rightarrow> js_string option" where
  "noHeaders h = None"

definition page :: "document \<Rightarrow> response" where
  "page doc = \<lparr>data = doc, headers = noHeaders\<rparr>"

definition timedPage :: "document \<Rightarrow> int \<Rightarrow> nat \<Rightarrow> timedResponse" where
  "timedPage doc ms bytes = \<lparr>data = doc, headers = noHeaders, elapsed = ms, byteLength = bytes\<rparr>"

text \<open>
  A page with a language, one H1, a landmark and a skip link, and nothing else:
  \<open><html lang="en"><body><a href="#main">Skip to content</a>
  <main id="main"><h1>Hello</h1></main></body></html>\<close>.
\<close>

definition plainPage :: document where
  "plainPage =
     [elem ''html'' [(''lang'', ''en'')] ''Skip to contentHello'',
      elem ''head'' [] [],
      elem ''body'' [] ''Skip to contentHello'',
      elem ''a'' [(''href'', ''#main'')] ''Skip to content'',
      elem ''main'' [(''id'', ''main'')] ''Hello'',
      elem ''h1'' [] ''Hello'']"



definition timeoutMessage :: js_string where
  "timeoutMessage = js ''timeout of 15000ms exceeded''"

definition exampleUrl :: js_string where
  "exampleUrl = js ''http://example.com/''"

definition exampleHost :: js_string where
  "exampleHost = js ''example.com''"

definition exampleNow :: js_string where
  "exampleNow = js ''2024-01-01T00:00:00.000Z''"


definition performanceTimedOut :: fetches where
  "performanceTimedOut =
     \<lparr>seoFetch = Inr (page plainPage),
      performanceFetch = Inl timeoutMessage,
      accessibilityFetch = Inr (page plainPage),
      bestPracticesFetch = Inr (page plainPage)\<rparr>"

definition noneFetched :: fetches where
  "noneFetched =
     \<lparr>seoFetch = Inl timeoutMessage,
      performanceFetch = Inl timeoutMessage,
      accessibilityFetch = Inl timeoutMessage,
      bestPracticesFetch = Inl timeoutMessage\<rparr>"


definition plainFetched :: fetches where
  "plainFetched =
     \<lparr>seoFetch = Inr (page plainPage),
      performanceFetch = Inr (timedPage plainPage 200 2048),
      accessibilityFetch = Inr (page plainPage),
      bestPracticesFetch = Inr (page plainPage)\<rparr>"

text \<open>The reports of three audits of \<open>http://example.com/\<close>.\<close>

definition plainReport :: auditResults where
  "plainReport =
     projr (runFullAudit asciiToLowerCase exampleUrl exampleHost exampleNow plainFetched)"

definition timedOutReport :: auditResults where
  "timedOutReport =
     projr (runFullAudit asciiToLowerCase exampleUrl exampleHost exampleNow performanceTimedOut)"

definition failedReport :: auditResults where
  "failedReport =
     projr (runFullAudit asciiToLowerCase exampleUrl exampleHost exampleNow noneFetched)"



definition eightImagesPage :: document where
  "eightImagesPage = replicate 8 (elem ''img'' [(''src'', ''a.png'')] [])"









section \<open>Basic facts\<close>

lemma snd_push [simp]: "snd (push i d t) = snd t - d"
  by (simp add: push_def)

lemma fst_push [simp]: "fst (push i d t) = fst t @ [i]"
  by (simp add: push_def)


lemma Math_round_quarter: "Math_round (of_int s / 4) = (s + 2) div 4"
  unfolding Math_round_def by linarith

lemma Math_round_mean4:
  "Math_round ((of_int a + of_int b + of_int c + of_int d) / 4) = (a + b + c + d + 2) div 4"
  using Math_round_quarter [of "a + b + c + d"] by simp

lemma Math_round_eq_round: "Math_round x = round x"
  by (simp add: Math_round_def round_def)

text \<open>Literals: \<^const>\<open>js\<close> is injective, so tests on literals are tests on their text.\<close>

lemma of_char_lt: "(of_char c :: nat) < 256"
proof -
  have "(of_char c :: nat) mod 256 < 256" by simp
  then show ?thesis by (simp only: of_char_mod_256)
qed

lemma unat_code_unit: "unat (word_of_nat (of_char c) :: 16 word) = of_char c"
proof -
  have "(of_char c :: nat) < 65536" using of_char_lt [of c] by linarith
  then show ?thesis by (simp add: unat_of_nat)
qed

lemma inj_code_unit: "inj (\<lambda>c. word_of_nat (of_char c) :: 16 word)"
proof (rule injI)
  fix a b :: char
  assume "(word_of_nat (of_char a) :: 16 word) = word_of_nat (of_char b)"
  then have "unat (word_of_nat (of_char a) :: 16 word)
             = unat (word_of_nat (of_char b) :: 16 word)"
    by simp
  then show "a = b" by (simp only: unat_code_unit of_char_eq_iff)
qed

lemma js_eq_iff [simp]: "js a = js b \<longleftrightarrow> a = b"
  unfolding js_def by (rule inj_map_eq_map [OF inj_code_unit])

lemma js_Nil [simp]: "js [] = []" "js a = [] \<longleftrightarrow> a = []" "[] = js a \<longleftrightarrow> a = []"
  by (auto simp: js_def)

lemma js_Cons: "js (c # s) = word_of_nat (of_char c) # js s"
  by (simp add: js_def)

lemma length_js [simp]: "length (js a) = length a"
  by (simp add: js_def)

lemma startsWith_js [simp]: "startsWith (js s) (js p) = startsWith s p"
proof -
  have "take (length (js p)) (js s) = js (take (length p) s)"
    by (simp add: js_def take_map)
  then show ?thesis unfolding startsWith_def by (simp only: js_eq_iff)
qed

lemma includesStr_js [simp]: "includesStr (js s) (js p) = includesStr s p"
proof (induction s)
  case Nil
  then show ?case by simp
next
  case (Cons c s)
  have "startsWith (js (c # s)) (js p) = startsWith (c # s) p" by simp
  then show ?case using Cons by (metis js_Cons includesStr.simps(2))
qed

lemma map_of_js:
  "map_of (map (\<lambda>(n, v). (js n, js v)) as) (js n) = map_option js (map_of as n)"
  by (induction as) auto

lemma elem_simps [simp]:
  "tag t (elem t' as txt) \<longleftrightarrow> t' = t"
  "attr (elem t' as txt) n = map_option js (map_of as n)"
  "textContent (elem t' as txt) = js txt"
  "tagName (elem t' as txt) = js t'"
  by (simp_all add: tag_def attr_def elem_def map_of_js)

lemma elem_tests [simp]:
  "hasAttr n (elem t as txt) \<longleftrightarrow> map_of as n \<noteq> None"
  "attrIs n (js v) (elem t as txt) \<longleftrightarrow> map_of as n = Some v"
  "attrStarts n (js v) (elem t as txt)
     \<longleftrightarrow> (case map_of as n of None \<Rightarrow> False | Some s \<Rightarrow> v \<noteq> [] \<and> startsWith s v)"
  "attrContains n (js v) (elem t as txt)
     \<longleftrightarrow> (case map_of as n of None \<Rightarrow> False | Some s \<Rightarrow> v \<noteq> [] \<and> includesStr s v)"
  by (auto simp: hasAttr_def attrIs_def attrStarts_def attrContains_def split: option.splits)

lemma truthy_simps [simp]:
  "truthy None = False"
  "truthy (Some s) \<longleftrightarrow> s \<noteq> []"
  "truthy (map_option js v) \<longleftrightarrow> (case v of None \<Rightarrow> False | Some s \<Rightarrow> s \<noteq> [])"
  by (auto simp: truthy_def split: option.splits)

lemma orElse_js [simp]:
  "orElse (map_option js v) [] = js (case v of None \<Rightarrow> [] | Some s \<Rightarrow> s)"
  by (auto simp: orElse_def split: option.splits)

lemmas query_defs = select_def attrOfFirst_def textOf_def isHeading_def isFocusable_def
  isLandmark_def isDeprecated_def isHttpResource_def isUnsafeLink_def


section \<open>Scores and grades\<close>



















section \<open>The aggregator\<close>

lemma analyze_outcomes:
  "analyzeSEO (Inl e) = Inl (js ''SEO analysis failed: '' @ e)"
  "analyzeSEO (Inr w) = Inr (seoAudit (data w))"
  "analyzePerformance lc (Inl e) = Inl (js ''Performance analysis failed: '' @ e)"
  "analyzePerformance lc (Inr v) = Inr (performanceAudit lc v)"
  "analyzeAccessibility lc (Inl e) = Inl (js ''Accessibility analysis failed: '' @ e)"
  "analyzeAccessibility lc (Inr w) = Inr (accessibilityAudit lc (data w))"
  "analyzeBestPractices url host (Inl e) = Inl (js ''Best practices analysis failed: '' @ e)"
  "analyzeBestPractices url host (Inr w) = Inr (bestPracticesAudit url host w)"
  by (simp_all add: analyzeSEO_def analyzePerformance_def analyzeAccessibility_def
      analyzeBestPractices_def)

lemma scoreOrZero_eq [simp]: "scoreOrZero x = scoreField x"
  by (simp add: scoreOrZero_def)

lemma catch_simps [simp]:
  "catchPlaceholder (Inl e) = Placeholder e 0"
  "catchPlaceholder (Inr a) = Analysis a"
  by (simp_all add: catchPlaceholder_def)

lemma scoreField_simps [simp]:
  "scoreField (Placeholder e s) = s"
  "scoreField (Analysis a) = analysis.score a"
  by (simp_all add: scoreField_def)

lemma issuesLength_simps [simp]:
  "issuesLengthOrZero (Placeholder e s) = 0"
  "issuesLengthOrZero (Analysis a) = length (analysis.issues a)"
  by (simp_all add: issuesLengthOrZero_def)


text \<open>The audit returns on every input, and its report is, field by field:\<close>

lemma runFullAudit_returns: "\<exists>r. runFullAudit lc url host now fs = Inr r"
  by (simp add: runFullAudit_def Let_def)

lemma runFullAudit_projr:
  "runFullAudit lc url host now fs = Inr (projr (runFullAudit lc url host now fs))"
  by (simp add: runFullAudit_def Let_def)

lemma runFullAudit_fields:
  assumes "runFullAudit lc url host now fs = Inr r"
  shows "seo r = catchPlaceholder (analyzeSEO (seoFetch fs))"
    and "performance r = catchPlaceholder (analyzePerformance lc (performanceFetch fs))"
    and "accessibility r = catchPlaceholder (analyzeAccessibility lc (accessibilityFetch fs))"
    and "bestPractices r
           = catchPlaceholder (analyzeBestPractices url host (bestPracticesFetch fs))"
    and "overallRecord.score (overall r)
           = (scoreField (seo r) + scoreField (performance r) + scoreField (accessibility r)
              + scoreField (bestPractices r) + 2) div 4"
    and "overallRecord.grade (overall r) = getGrade (overallRecord.score (overall r))"
    and "totalIssues (summary r)
           = issuesLengthOrZero (seo r) + issuesLengthOrZero (performance r)
             + issuesLengthOrZero (accessibility r) + issuesLengthOrZero (bestPractices r)"
  using assms by (auto simp: runFullAudit_def Let_def Math_round_mean4)




text \<open>
  C2. For every audit, the overall score is \<open>round(mean(seo.score, performance.score,
  accessibility.score, bestPractices.score))\<close>, where a dimension whose analysis failed
  contributes 0, and the overall grade is \<^const>\<open>getGrade\<close> of that rounded score.
\<close>

theorem overall_is_rounded_mean:
  "runFullAudit lc url host now fs = Inr r \<Longrightarrow>
     overallRecord.score (overall r)
       = round (specMean [scoreField (seo r), scoreField (performance r),
                          scoreField (accessibility r), scoreField (bestPractices r)])
     \<and> overallRecord.grade (overall r) = getGrade (overallRecord.score (overall r))
     \<and> (analyzeSEO (seoFetch fs) = Inl m1 \<longrightarrow> scoreField (seo r) = 0)
     \<and> (analyzePerformance lc (performanceFetch fs) = Inl m2
          \<longrightarrow> scoreField (performance r) = 0)
     \<and> (analyzeAccessibility lc (accessibilityFetch fs) = Inl m3
          \<longrightarrow> scoreField (accessibility r) = 0)
     \<and> (analyzeBestPractices url host (bestPracticesFetch fs) = Inl m4
          \<longrightarrow> scoreField (bestPractices r) = 0)"
proof -
  assume r: "runFullAudit lc url host now fs = Inr r"
  note f = runFullAudit_fields [OF r]
  let ?sum = "scoreField (seo r) + scoreField (performance r) + scoreField (accessibility r)
              + scoreField (bestPractices r)"
  have A: "specMean [scoreField (seo r), scoreField (performance r),
                  scoreField (accessibility r), scoreField (bestPractices r)]
        = of_int ?sum / 4"
    by (simp add: specMean_def)
  have B: "round (of_int ?sum / (4::rat)) = (?sum + 2) div 4"
    using Math_round_quarter [of ?sum] by (simp only: Math_round_eq_round)
  have "overallRecord.score (overall r)
       = round (specMean [scoreField (seo r), scoreField (performance r),
                          scoreField (accessibility r), scoreField (bestPractices r)])"
    by (simp only: f(5) A B)
  moreover have "analyzeSEO (seoFetch fs) = Inl m1 \<longrightarrow> scoreField (seo r) = 0"
    "analyzePerformance lc (performanceFetch fs) = Inl m2 \<longrightarrow> scoreField (performance r) = 0"
    "analyzeAccessibility lc (accessibilityFetch fs) = Inl m3
       \<longrightarrow> scoreField (accessibility r) = 0"
    "analyzeBestPractices url host (bestPracticesFetch fs) = Inl m4
       \<longrightarrow> scoreField (bestPractices r) = 0"
    unfolding f(1-4) by simp_all
  ultimately show ?thesis using f(6) by blast
qed


text \<open>The four analyses of \<^const>\<open>plainPage\<close>, evaluated.\<close>

lemmas seo_defs = seoTitle_def seoMetaDescription_def seoH1_def seoImages_def seoCanonical_def
  seoOpenGraph_def seoRecommendations_def trim_def isWhiteSpace_def

lemmas perf_defs = perfLoadTime_def perfSize_def perfCompression_def perfCaching_def
  perfHasCDN_def perfCDN_def cdnHeaders_def orElse_def

lemmas a11y_defs = a11yImages_def a11yHeadings_def a11yMissingH1_def a11yHierarchy_def
  a11yLabels_def a11yColors_def a11yKeyboard_def a11yLandmarks_def a11yLang_def
  a11ySkipLinks_def inputsWithoutLabelsOf_def skipLinksOf_def parseIntCharAt_def numGreater_def

lemmas bp_defs = bpHTTPS_def bpSecurityHeaders_def securityHeaderTable_def bpHeader_def
  bpViewport_def bpFavicon_def externalLinksOf_def unsafeExternalLinksOf_def
  bpExternalLinks_def bpMixedContent_def bpDeprecated_def bpInlineStyles_def
  bpInlineScripts_def

lemmas ascii_defs = asciiToLowerCase_def js_def startsWith_def Let_def orElse_def

lemma seo_plainPage:
  "analysis.score (seoAudit plainPage) = 62 \<and> length (analysis.issues (seoAudit plainPage)) = 4"
  unfolding seoAudit_def Let_def analysis.select_convs
  by (simp add: plainPage_def query_defs seo_defs)

lemma performance_plainPage:
  "analysis.score (performanceAudit asciiToLowerCase (timedPage plainPage 200 2048)) = 77
   \<and> length (analysis.issues (performanceAudit asciiToLowerCase (timedPage plainPage 200 2048)))
       = 3"
  unfolding performanceAudit_def Let_def analysis.select_convs
  by (simp add: timedPage_def noHeaders_def perf_defs Math_round_def Let_def)
    (simp_all add: ascii_defs)

lemma accessibility_plainPage:
  "analysis.score (accessibilityAudit asciiToLowerCase plainPage) = 97
   \<and> length (analysis.issues (accessibilityAudit asciiToLowerCase plainPage)) = 1"
  unfolding accessibilityAudit_def Let_def case_prod_beta analysis.select_convs
  by (simp add: plainPage_def query_defs a11y_defs) (simp_all add: ascii_defs)

lemma bestPractices_plainPage:
  "analysis.score (bestPracticesAudit exampleUrl exampleHost (page plainPage)) = 42
   \<and> length (analysis.issues (bestPracticesAudit exampleUrl exampleHost (page plainPage))) = 7"
  unfolding bestPracticesAudit_def Let_def analysis.select_convs
  by (simp add: page_def plainPage_def noHeaders_def exampleUrl_def exampleHost_def query_defs
      bp_defs) (simp_all add: ascii_defs)

lemma example_reports:
  "runFullAudit asciiToLowerCase exampleUrl exampleHost exampleNow plainFetched
     = Inr plainReport"
  "runFullAudit asciiToLowerCase exampleUrl exampleHost exampleNow performanceTimedOut
     = Inr timedOutReport"
  "runFullAudit asciiToLowerCase exampleUrl exampleHost exampleNow noneFetched
     = Inr failedReport"
  unfolding plainReport_def timedOutReport_def failedReport_def
  by (rule runFullAudit_projr)+

lemma example_outcomes:
  "analyzeSEO (Inr (page plainPage)) = Inr (seoAudit plainPage)"
  "analyzePerformance lc (Inr (timedPage plainPage 200 2048))
     = Inr (performanceAudit lc (timedPage plainPage 200 2048))"
  "analyzeAccessibility lc (Inr (page plainPage)) = Inr (accessibilityAudit lc plainPage)"
  "analyzeBestPractices url host (Inr (page plainPage))
     = Inr (bestPracticesAudit url host (page plainPage))"
  by (simp_all add: analyze_outcomes page_def)

theorem overall_is_rounded_mean_witness:
  "runFullAudit asciiToLowerCase exampleUrl exampleHost exampleNow performanceTimedOut
     = Inr timedOutReport
   \<and> analyzePerformance asciiToLowerCase (performanceFetch performanceTimedOut)
       = Inl (js ''Performance analysis failed: '' @ timeoutMessage)
   \<and> scoreField (seo timedOutReport) = 62
   \<and> scoreField (performance timedOutReport) = 0
   \<and> scoreField (accessibility timedOutReport) = 97
   \<and> scoreField (bestPractices timedOutReport) = 42
   \<and> overallRecord.score (overall timedOutReport) = 50
   \<and> round (specMean [62, 0, 97, 42]) = 50
   \<and> overallRecord.grade (overall timedOutReport) = GradeF"
proof -
  note r = example_reports(2)
  note f = runFullAudit_fields [OF r]
  have p: "analyzePerformance asciiToLowerCase (performanceFetch performanceTimedOut)
       = Inl (js ''Performance analysis failed: '' @ timeoutMessage)"
    by (simp add: performanceTimedOut_def analyze_outcomes)
  have s: "scoreField (seo timedOutReport) = 62"
    "scoreField (accessibility timedOutReport) = 97"
    "scoreField (bestPractices timedOutReport) = 42"
    unfolding f(1-4)
    by (simp_all add: performanceTimedOut_def example_outcomes seo_plainPage
        accessibility_plainPage bestPractices_plainPage)
  have o: "overallRecord.score (overall timedOutReport) = 50"
    unfolding f(5) s by (simp add: f(2) p)
  have z: "scoreField (performance timedOutReport) = 0"
    unfolding f(2) by (simp add: p)
  show ?thesis
    using overall_is_rounded_mean [OF r, of "js ''x''"
        "js ''Performance analysis failed: '' @ timeoutMessage" "js ''x''" "js ''x''"]
      r p
    unfolding s z o
    by (simp add: getGrade_def)
qed


text \<open>
  C3. If exactly one analyzer throws while the other three succeed, the aggregate is
  still produced: the failed dimension is the placeholder \<open>{ error: message, score: 0 }\<close>,
  which has no \<open>issues\<close>, \<open>recommendations\<close> or \<open>details\<close>; the other three
  dimensions are what their analyzers return; and \<open>summary.totalIssues\<close> is the sum of
  \<open>issues.length\<close> over the three results that are present. One conjunct for each
  analyzer that may be the one to fail.
\<close>

theorem one_failure_is_isolated:
  "(analyzeSEO (seoFetch fs) = Inl m
    \<and> analyzePerformance lc (performanceFetch fs) = Inr p
    \<and> analyzeAccessibility lc (accessibilityFetch fs) = Inr a
    \<and> analyzeBestPractices url host (bestPracticesFetch fs) = Inr b
    \<longrightarrow> (\<exists>r. runFullAudit lc url host now fs = Inr r
          \<and> seo r = Placeholder m 0 \<and> performance r = Analysis p
          \<and> accessibility r = Analysis a \<and> bestPractices r = Analysis b
          \<and> totalIssues (summary r)
              = length (analysis.issues p) + length (analysis.issues a)
                + length (analysis.issues b)))
   \<and> (analyzeSEO (seoFetch fs) = Inr s
    \<and> analyzePerformance lc (performanceFetch fs) = Inl m
    \<and> analyzeAccessibility lc (accessibilityFetch fs) = Inr a
    \<and> analyzeBestPractices url host (bestPracticesFetch fs) = Inr b
    \<longrightarrow> (\<exists>r. runFullAudit lc url host now fs = Inr r
          \<and> seo r = Analysis s \<and> performance r = Placeholder m 0
          \<and> accessibility r = Analysis a \<and> bestPractices r = Analysis b
          \<and> totalIssues (summary r)
              = length (analysis.issues s) + length (analysis.issues a)
                + length (analysis.issues b)))
   \<and> (analyzeSEO (seoFetch fs) = Inr s
    \<and> analyzePerformance lc (performanceFetch fs) = Inr p
    \<and> analyzeAccessibility lc (accessibilityFetch fs) = Inl m
    \<and> analyzeBestPractices url host (bestPracticesFetch fs) = Inr b
    \<longrightarrow> (\<exists>r. runFullAudit lc url host now fs = Inr r
          \<and> seo r = Analysis s \<and> performance r = Analysis p
          \<and> accessibility r = Placeholder m 0 \<and> bestPractices r = Analysis b
          \<and> totalIssues (summary r)
              = length (analysis.issues s) + length (analysis.issues p)
                + length (analysis.issues b)))
   \<and> (analyzeSEO (seoFetch fs) = Inr s
    \<and> analyzePerformance lc (performanceFetch fs) = Inr p
    \<and> analyzeAccessibility lc (accessibilityFetch fs) = Inr a
    \<and> analyzeBestPractices url host (bestPracticesFetch fs) = Inl m
    \<longrightarrow> (\<exists>r. runFullAudit lc url host now fs = Inr r
          \<and> seo r = Analysis s \<and> performance r = Analysis p
          \<and> accessibility r = Analysis a \<and> bestPractices r = Placeholder m 0
          \<and> totalIssues (summary r)
              = length (analysis.issues s) + length (analysis.issues p)
                + length (analysis.issues a)))"
proof -
  obtain r where r: "runFullAudit lc url host now fs = Inr r"
    using runFullAudit_returns by blast
  note f = runFullAudit_fields [OF r]
  show ?thesis
    unfolding r by (simp add: f)
qed

theorem one_failure_is_isolated_witness:
  "analyzeSEO (seoFetch performanceTimedOut) = Inr (seoAudit plainPage)
   \<and> analyzePerformance asciiToLowerCase (performanceFetch performanceTimedOut)
       = Inl (js ''Performance analysis failed: '' @ timeoutMessage)
   \<and> analyzeAccessibility asciiToLowerCase (accessibilityFetch performanceTimedOut)
       = Inr (accessibilityAudit asciiToLowerCase plainPage)
   \<and> analyzeBestPractices exampleUrl exampleHost (bestPracticesFetch performanceTimedOut)
       = Inr (bestPracticesAudit exampleUrl exampleHost (page plainPage))
   \<and> runFullAudit asciiToLowerCase exampleUrl exampleHost exampleNow performanceTimedOut
       = Inr timedOutReport
   \<and> seo timedOutReport = Analysis (seoAudit plainPage)
   \<and> performance timedOutReport
       = Placeholder (js ''Performance analysis failed: '' @ timeoutMessage) 0
   \<and> accessibility timedOutReport = Analysis (accessibilityAudit asciiToLowerCase plainPage)
   \<and> bestPractices timedOutReport
       = Analysis (bestPracticesAudit exampleUrl exampleHost (page plainPage))
   \<and> totalIssues (summary timedOutReport) = 4 + 1 + 7"
proof -
  have h: "analyzeSEO (seoFetch performanceTimedOut) = Inr (seoAudit plainPage)"
    "analyzePerformance asciiToLowerCase (performanceFetch performanceTimedOut)
       = Inl (js ''Performance analysis failed: '' @ timeoutMessage)"
    "analyzeAccessibility asciiToLowerCase (accessibilityFetch performanceTimedOut)
       = Inr (accessibilityAudit asciiToLowerCase plainPage)"
    "analyzeBestPractices exampleUrl exampleHost (bestPracticesFetch performanceTimedOut)
       = Inr (bestPracticesAudit exampleUrl exampleHost (page plainPage))"
    by (simp_all add: performanceTimedOut_def analyze_outcomes page_def)
  from one_failure_is_isolated [where fs = performanceTimedOut and lc = asciiToLowerCase
      and url = exampleUrl and host = exampleHost and now = exampleNow
      and s = "seoAudit plainPage"
      and m = "js ''Performance analysis failed: '' @ timeoutMessage"
      and a = "accessibilityAudit asciiToLowerCase plainPage"
      and b = "bestPracticesAudit exampleUrl exampleHost (page plainPage)"]
  have "\<exists>r. runFullAudit asciiToLowerCase exampleUrl exampleHost exampleNow performanceTimedOut
          = Inr r
        \<and> seo r = Analysis (seoAudit plainPage)
        \<and> performance r = Placeholder (js ''Performance analysis failed: '' @ timeoutMessage) 0
        \<and> accessibility r = Analysis (accessibilityAudit asciiToLowerCase plainPage)
        \<and> bestPractices r = Analysis (bestPracticesAudit exampleUrl exampleHost (page plainPage))
        \<and> totalIssues (summary r)
            = length (analysis.issues (seoAudit plainPage))
              + length (analysis.issues (accessibilityAudit asciiToLowerCase plainPage))
              + length (analysis.issues
                         (bestPracticesAudit exampleUrl exampleHost (page plainPage)))"
    using h by blast
  then show ?thesis
    using h by (auto simp: example_reports seo_plainPage accessibility_plainPage
        bestPractices_plainPage)
qed

text \<open>
  C4. If all four analyzers fail, the aggregator still returns a report: every dimension
  is the error placeholder, the overall score is 0 with grade F, and
  \<open>summary.totalIssues\<close> is 0.
\<close>

theorem all_failures_still_report:
  "analyzeSEO (seoFetch fs) = Inl m1
   \<and> analyzePerformance lc (performanceFetch fs) = Inl m2
   \<and> analyzeAccessibility lc (accessibilityFetch fs) = Inl m3
   \<and> analyzeBestPractices url host (bestPracticesFetch fs) = Inl m4
   \<Longrightarrow> \<exists>r. runFullAudit lc url host now fs = Inr r
         \<and> seo r = Placeholder m1 0 \<and> performance r = Placeholder m2 0
         \<and> accessibility r = Placeholder m3 0 \<and> bestPractices r = Placeholder m4 0
         \<and> overallRecord.score (overall r) = 0
         \<and> overallRecord.grade (overall r) = GradeF
         \<and> totalIssues (summary r) = 0"
proof -
  assume h: "analyzeSEO (seoFetch fs) = Inl m1
   \<and> analyzePerformance lc (performanceFetch fs) = Inl m2
   \<and> analyzeAccessibility lc (accessibilityFetch fs) = Inl m3
   \<and> analyzeBestPractices url host (bestPracticesFetch fs) = Inl m4"
  obtain r where r: "runFullAudit lc url host now fs = Inr r"
    using runFullAudit_returns by blast
  note f = runFullAudit_fields [OF r]
  have d: "seo r = Placeholder m1 0" "performance r = Placeholder m2 0"
    "accessibility r = Placeholder m3 0" "bestPractices r = Placeholder m4 0"
    using h by (simp_all add: f(1-4))
  have "overallRecord.score (overall r) = 0" "totalIssues (summary r) = 0"
    by (simp_all add: f(5,7) d)
  moreover from this have "overallRecord.grade (overall r) = GradeF"
    by (simp add: f(6) getGrade_def)
  ultimately show ?thesis using r d by simp
qed

theorem all_failures_still_report_witness:
  "analyzeSEO (seoFetch noneFetched) = Inl (js ''SEO analysis failed: '' @ timeoutMessage)
   \<and> analyzePerformance asciiToLowerCase (performanceFetch noneFetched)
       = Inl (js ''Performance analysis failed: '' @ timeoutMessage)
   \<and> analyzeAccessibility asciiToLowerCase (accessibilityFetch noneFetched)
       = Inl (js ''Accessibility analysis failed: '' @ timeoutMessage)
   \<and> analyzeBestPractices exampleUrl exampleHost (bestPracticesFetch noneFetched)
       = Inl (js ''Best practices analysis failed: '' @ timeoutMessage)
   \<and> runFullAudit asciiToLowerCase exampleUrl exampleHost exampleNow noneFetched
       = Inr failedReport
   \<and> seo failedReport = Placeholder (js ''SEO analysis failed: '' @ timeoutMessage) 0
   \<and> performance failedReport
       = Placeholder (js ''Performance analysis failed: '' @ timeoutMessage) 0
   \<and> accessibility failedReport
       = Placeholder (js ''Accessibility analysis failed: '' @ timeoutMessage) 0
   \<and> bestPractices failedReport
       = Placeholder (js ''Best practices analysis failed: '' @ timeoutMessage) 0
   \<and> overallRecord.score (overall failedReport) = 0
   \<and> overallRecord.grade (overall failedReport) = GradeF
   \<and> totalIssues (summary failedReport) = 0"
proof -
  have h: "analyzeSEO (seoFetch noneFetched) = Inl (js ''SEO analysis failed: '' @ timeoutMessage)
   \<and> analyzePerformance asciiToLowerCase (performanceFetch noneFetched)
       = Inl (js ''Performance analysis failed: '' @ timeoutMessage)
   \<and> analyzeAccessibility asciiToLowerCase (accessibilityFetch noneFetched)
       = Inl (js ''Accessibility analysis failed: '' @ timeoutMessage)
   \<and> analyzeBestPractices exampleUrl exampleHost (bestPracticesFetch noneFetched)
       = Inl (js ''Best practices analysis failed: '' @ timeoutMessage)"
    by (simp add: noneFetched_def analyze_outcomes)
  show ?thesis
    using all_failures_still_report [OF h, of exampleNow] h
    by (auto simp: example_reports)
qed


section \<open>SEO analyzer\<close>

text \<open>What each check takes from the running total.\<close>

lemma snd_seoTitle:
  "snd (seoTitle ttl t) =
     snd t - (if ttl = [] then 15 else if length ttl < 30 \<or> length ttl > 60 then 10 else 0)"
  by (simp add: seoTitle_def)

lemma snd_seoMetaDescription:
  "snd (seoMetaDescription md t) =
     snd t - (if \<not> truthy md then 15
              else if length (the md) < 120 \<or> length (the md) > 160 then 8 else 0)"
  by (simp add: seoMetaDescription_def)

lemma snd_seoH1:
  "snd (seoH1 n t) = snd t - (if n = 0 then 12 else if n > 1 then 8 else 0)"
  by (simp add: seoH1_def)

lemma snd_seoImages:
  "snd (seoImages n t) = snd t - min (int n * 2) 15"
  by (simp add: seoImages_def)

lemma snd_seoCanonical:
  "snd (seoCanonical c t) = snd t - (if \<not> truthy c then 5 else 0)"
  by (simp add: seoCanonical_def)

lemma snd_seoOpenGraph:
  "snd (seoOpenGraph og1 og2 t) = snd t - (if \<not> truthy og1 \<or> \<not> truthy og2 then 3 else 0)"
  by (simp add: seoOpenGraph_def)

lemmas snd_seo = snd_seoTitle snd_seoMetaDescription snd_seoH1 snd_seoImages snd_seoCanonical
  snd_seoOpenGraph

lemma seo_step_ge:
  "snd t - 15 \<le> snd (seoTitle ttl t)"
  "snd t - 15 \<le> snd (seoMetaDescription md t)"
  "snd t - 12 \<le> snd (seoH1 h t)"
  "snd t - 15 \<le> snd (seoImages n t)"
  "snd t - 5 \<le> snd (seoCanonical c t)"
  "snd t - 3 \<le> snd (seoOpenGraph og1 og2 t)"
  by (simp_all add: snd_seo)

lemma seo_running_total_ge:
  "35 \<le> snd (seoOpenGraph og1 og2 (seoCanonical c (seoImages n (seoH1 h
           (seoMetaDescription md (seoTitle ttl ([], 100)))))))"
proof -
  let ?t1 = "seoTitle ttl ([], 100)"
  let ?t2 = "seoMetaDescription md ?t1"
  let ?t3 = "seoH1 h ?t2"
  let ?t4 = "seoImages n ?t3"
  let ?t5 = "seoCanonical c ?t4"
  have "85 \<le> snd ?t1" using seo_step_ge(1) [of "([], 100)" ttl] by simp
  then have "70 \<le> snd ?t2" using seo_step_ge(2) [of ?t1 md] by linarith
  then have "58 \<le> snd ?t3" using seo_step_ge(3) [of ?t2 h] by linarith
  then have "43 \<le> snd ?t4" using seo_step_ge(4) [of ?t3 n] by linarith
  then have "38 \<le> snd ?t5" using seo_step_ge(5) [of ?t4 c] by linarith
  then show ?thesis using seo_step_ge(6) [of ?t5 og1 og2] by linarith
qed

lemma seoAudit_ge: "35 \<le> analysis.score (seoAudit doc)"
  unfolding seoAudit_def Let_def analysis.select_convs
  by (rule max.coboundedI1) (rule seo_running_total_ge)

text \<open>
  C9. For every document the SEO score is at least 35. The title check takes at most 15,
  the meta description check at most 15, the H1 check at most 12, the missing-alt check
  at most 15, the canonical check at most 5 and the Open Graph check at most 3, whatever
  the running total is; so at most 65 is deducted from 100. The score is the larger of
  the running total and 0, so a score of 35 or more is the running total itself: the
  clamp is not reached.
\<close>

theorem seo_score_at_least_35:
  "(analyzeSEO fetched = Inr a \<longrightarrow> 35 \<le> analysis.score a)
   \<and> snd t - 15 \<le> snd (seoTitle ttl t)
   \<and> snd t - 15 \<le> snd (seoMetaDescription md t)
   \<and> snd t - 12 \<le> snd (seoH1 h t)
   \<and> snd t - 15 \<le> snd (seoImages n t)
   \<and> snd t - 5 \<le> snd (seoCanonical c t)
   \<and> snd t - 3 \<le> snd (seoOpenGraph og1 og2 t)"
proof -
  have "analyzeSEO fetched = Inr a \<longrightarrow> 35 \<le> analysis.score a"
    using seoAudit_ge by (cases fetched) (auto simp: analyze_outcomes)
  then show ?thesis by (simp only: seo_step_ge simp_thms)
qed

lemma seo_eightImagesPage: "analysis.score (seoAudit eightImagesPage) = 35"
  unfolding seoAudit_def Let_def analysis.select_convs
  by (simp add: eightImagesPage_def query_defs seo_defs)

theorem seo_score_at_least_35_witness:
  "analyzeSEO (Inr (page eightImagesPage)) = Inr (seoAudit eightImagesPage)
   \<and> analysis.score (seoAudit eightImagesPage) = 35
   \<and> 35 \<le> analysis.score (seoAudit eightImagesPage)"
proof -
  have h: "analyzeSEO (Inr (page eightImagesPage)) = Inr (seoAudit eightImagesPage)"
    by (simp add: analyze_outcomes page_def)
  show ?thesis
    using h seo_eightImagesPage
      seo_score_at_least_35 [of "Inr (page eightImagesPage)" "seoAudit eightImagesPage"]
    by simp
qed


















section \<open>Accessibility analyzer\<close>





















section \<open>Best practices analyzer\<close>











end
